theory Spec2Isabelle
  imports Main "HOL-Library.Char_ord" "HOL-Library.List_Lexorder" "HOL-Library.Product_Lexorder"
begin

section \<open>The database server as the manager sees it\<close>

text \<open>
  \<^verbatim>\<open>modules/db.py\<close> talks to PostgreSQL through psycopg2. The catalog relations that the
  literal SQL statements of the module read are modelled as lists of rows, in the order in
  which the server scans them. Only the columns the statements mention are kept. Columns
  shared by two relations carry the alias the statements give the relation (\<open>ft\<close>,
  \<open>ftc\<close>, \<open>tc\<close>, \<open>ccu\<close>) as a prefix, since record fields are global names.
\<close>

record foreign_table =
  ft_foreign_table_schema :: string
  ft_foreign_table_name :: string

record pg_foreign_table_row =
  ftrelid :: nat

record pg_attribute_row =
  attrelid :: nat
  attname :: string
  attnum :: int
  atttypid :: nat
  atttypmod :: int

record pg_description_row =
  objoid :: nat
  objsubid :: int
  description :: string

record foreign_table_constraint =
  ftc_foreign_table_schema :: string
  ftc_foreign_table_name :: string
  ftc_unique_constraint_schema :: string
  ftc_unique_constraint_name :: string
  ftc_referenced_table_schema :: string
  ftc_referenced_table_name :: string
  ftc_constraint_type :: string

record table_constraint =
  tc_constraint_schema :: string
  tc_constraint_name :: string
  tc_table_name :: string
  tc_constraint_type :: string

record constraint_column_usage_row =
  ccu_constraint_name :: string

text \<open>
  \<open>regclass_text\<close> is the cast \<^verbatim>\<open>oid::regclass::text\<close> and \<open>format_type\<close> the server
  function of that name; both belong to the server, so they are fields of its state.
\<close>

record database =
  foreign_tables :: "foreign_table list"
  pg_foreign_table :: "pg_foreign_table_row list"
  pg_attribute :: "pg_attribute_row list"
  pg_description :: "pg_description_row list"
  foreign_table_constraints :: "foreign_table_constraint list"
  table_constraints :: "table_constraint list"
  constraint_column_usage :: "constraint_column_usage_row list"
  regclass_text :: "nat \<Rightarrow> string"
  format_type :: "nat \<Rightarrow> int \<Rightarrow> string"

section \<open>Python values and exceptions\<close>

text \<open>
  The exceptions the module can let through. Every statement the server rejects is a
  \<open>DatabaseError\<close>; a statement sent while the transaction is aborted is an
  \<open>InFailedSqlTransaction\<close>.
\<close>

datatype error =
    AttributeError
  | TypeError
  | InterfaceError
  | OperationalError
  | DatabaseError
  | InFailedSqlTransaction

text \<open>
  Values that are not native to JSON are known to the module only through the two calls
  \<open>datetime_handler\<close> makes on them: a \<^verbatim>\<open>datetime\<close> instance carries the text its
  \<^verbatim>\<open>isoformat()\<close> returns, any other object the text \<^verbatim>\<open>str(obj)\<close> returns.
\<close>

datatype pyobj =
    Datetime string
  | Other string

text \<open>A float carries the text of its \<^verbatim>\<open>repr\<close>, or is one of the three special values.\<close>

datatype pyfloat = Finite string | NaN | PosInfinity | NegInfinity

text \<open>
  A value of a result row. Dictionaries (from \<^verbatim>\<open>json\<close> columns, and the rows
  \<open>run_sql\<close> builds) have string keys and keep their insertion order.
\<close>

datatype pyval =
    PNone
  | PBool bool
  | PInt int
  | PFloat pyfloat
  | PStr string
  | PList "pyval list"
  | PDict "(string \<times> pyval) list"
  | PObj pyobj

section \<open>Connections and cursors\<close>

text \<open>
  A psycopg2 connection is open or closed, its transaction may be aborted by a failed
  statement, and it sees one server state. A cursor is open or closed. The cursor of a
  manager is always created from the connection stored by the same \<open>connect_with_url\<close>
  call, so the connection a cursor works on is the one in the manager's \<open>conn\<close> field.
\<close>

record connection =
  conn_closed :: bool
  tx_aborted :: bool
  server :: database

record cursor =
  cur_closed :: bool

text \<open>
  The environment: which connection URLs reach which server, and what a server does with
  a statement the caller wrote. The server rejects the statement with an error, or runs it
  and is changed by it; a statement that was run has a result set (the column names of
  \<^verbatim>\<open>description\<close> and the rows) or has none.
\<close>

type_synonym result_set = "string list \<times> pyval list list"

record driver =
  reach :: "string \<Rightarrow> error + database"
  run_statement :: "string \<Rightarrow> database \<Rightarrow> (error + result_set option) \<times> database"

text \<open>
  What the module relies on from psycopg2: \<^verbatim>\<open>connect\<close> returns an open connection or
  raises; \<^verbatim>\<open>cursor()\<close> raises on a closed connection and returns an open cursor
  otherwise; \<^verbatim>\<open>close()\<close> of a cursor or a connection marks it closed and does not raise,
  also when it is closed already.
\<close>

definition psycopg2_connect :: "driver \<Rightarrow> string \<Rightarrow> error + connection" where
  "psycopg2_connect drv url =
     (case reach drv url of
        Inl e \<Rightarrow> Inl e
      | Inr db \<Rightarrow> Inr \<lparr>conn_closed = False, tx_aborted = False, server = db\<rparr>)"

definition connection_cursor :: "connection \<Rightarrow> error + cursor" where
  "connection_cursor c =
     (if conn_closed c then Inl InterfaceError else Inr \<lparr>cur_closed = False\<rparr>)"

definition cursor_close :: "cursor \<Rightarrow> error + cursor" where
  "cursor_close k = Inr (k\<lparr>cur_closed := True\<rparr>)"

definition connection_close :: "connection \<Rightarrow> error + connection" where
  "connection_close c = Inr (c\<lparr>conn_closed := True\<rparr>)"

section \<open>PostgresManager: life cycle\<close>

record manager =
  conn :: "connection option"
  cur :: "cursor option"

definition init :: manager where
  "init = \<lparr>conn = None, cur = None\<rparr>"


definition connect_with_url :: "driver \<Rightarrow> manager \<Rightarrow> string \<Rightarrow> (error + unit) \<times> manager" where
  "connect_with_url drv self url =
     (case psycopg2_connect drv url of
        Inl e \<Rightarrow> (Inl e, self)
      | Inr c \<Rightarrow>
          (let self1 = self\<lparr>conn := Some c\<rparr> in
           case connection_cursor c of
             Inl e \<Rightarrow> (Inl e, self1)
           | Inr k \<Rightarrow> (Inr (), self1\<lparr>cur := Some k\<rparr>)))"

text \<open>
  The body shared by \<open>close\<close> and \<^verbatim>\<open>__exit__\<close>: the two guarded calls, in the order of
  the source. A cursor or connection object is always true in a condition, so the guard
  is the test for \<^verbatim>\<open>None\<close>.
\<close>

definition close_cur :: "manager \<Rightarrow> (error + unit) \<times> manager" where
  "close_cur self =
     (case cur self of
        None \<Rightarrow> (Inr (), self)
      | Some k \<Rightarrow>
          (case cursor_close k of
             Inl e \<Rightarrow> (Inl e, self)
           | Inr k' \<Rightarrow> (Inr (), self\<lparr>cur := Some k'\<rparr>)))"

definition close_conn :: "manager \<Rightarrow> (error + unit) \<times> manager" where
  "close_conn self =
     (case conn self of
        None \<Rightarrow> (Inr (), self)
      | Some c \<Rightarrow>
          (case connection_close c of
             Inl e \<Rightarrow> (Inl e, self)
           | Inr c' \<Rightarrow> (Inr (), self\<lparr>conn := Some c'\<rparr>)))"

definition close :: "manager \<Rightarrow> (error + unit) \<times> manager" where
  "close self =
     (case close_cur self of
        (Inl e, self1) \<Rightarrow> (Inl e, self1)
      | (Inr _, self1) \<Rightarrow> close_conn self1)"



section \<open>Strings\<close>

definition newline :: string where
  "newline = [CHR 0x0A]"

text \<open>\<^verbatim>\<open>s.rstrip(chars)\<close>: drop every trailing character that occurs in \<open>chars\<close>.\<close>

definition rstrip :: "string \<Rightarrow> string \<Rightarrow> string" where
  "rstrip s chars = rev (dropWhile (\<lambda>c. c \<in> set chars) (rev s))"

text \<open>\<^verbatim>\<open>sep.join(parts)\<close>.\<close>

fun join :: "string \<Rightarrow> string list \<Rightarrow> string" where
  "join sep [] = []"
| "join sep [x] = x"
| "join sep (x # y # ys) = x @ sep @ join sep (y # ys)"

text \<open>
  A Python dictionary as an association list in insertion order: assigning to a key that is
  present replaces its value in place, assigning to a new key appends.
\<close>

fun dict_set :: "('k \<times> 'v) list \<Rightarrow> 'k \<Rightarrow> 'v \<Rightarrow> ('k \<times> 'v) list" where
  "dict_set [] k v = [(k, v)]"
| "dict_set ((k', v') # d) k v =
     (if k' = k then (k', v) # d else (k', v') # dict_set d k v)"


section \<open>Executing statements\<close>

text \<open>
  \<^verbatim>\<open>self.cur.execute(...)\<close> followed by \<^verbatim>\<open>self.cur.fetchall()\<close>, which is how every
  method of the module reads its rows. The attribute access fails on \<^verbatim>\<open>None\<close>; psycopg2
  refuses a closed cursor or connection and a statement in an aborted transaction; a
  statement the server rejects aborts the transaction and changes nothing on the server.
  A cursor without a connection beside it is a state no method produces; the statement is
  refused there.
\<close>

definition cursor_execute ::
  "manager \<Rightarrow> (database \<Rightarrow> (error + 'r) \<times> database) \<Rightarrow> (error + 'r) \<times> manager" where
  "cursor_execute self stmt =
     (case cur self of
        None \<Rightarrow> (Inl AttributeError, self)
      | Some k \<Rightarrow>
          (case conn self of
             None \<Rightarrow> (Inl InterfaceError, self)
           | Some c \<Rightarrow>
               (if cur_closed k \<or> conn_closed c then (Inl InterfaceError, self)
                else if tx_aborted c then (Inl InFailedSqlTransaction, self)
                else
                  (case stmt (server c) of
                     (Inl e, db') \<Rightarrow> (Inl e, self\<lparr>conn := Some (c\<lparr>tx_aborted := True\<rparr>)\<rparr>)
                   | (Inr r, db') \<Rightarrow> (Inr r, self\<lparr>conn := Some (c\<lparr>server := db'\<rparr>)\<rparr>)))))"

text \<open>A \<^verbatim>\<open>SELECT\<close> reads the server state and leaves it as it is.\<close>

definition select :: "(database \<Rightarrow> error + 'r) \<Rightarrow> database \<Rightarrow> (error + 'r) \<times> database" where
  "select q db = (q db, db)"

section \<open>The literal statements of the module\<close>

text \<open>A result row with one column; the methods read it as \<^verbatim>\<open>row[0]\<close>.\<close>

record name_row =
  row0 :: string

text \<open>
  The five columns of \<open>get_def_stmt\<close>, under the aliases of its \<^verbatim>\<open>SELECT\<close> list;
  \<^verbatim>\<open>row[2]\<close> is \<open>column_name\<close> and \<^verbatim>\<open>row[3]\<close> is \<open>column_type\<close>.
\<close>

record def_row =
  schema_name :: string
  table_name :: string
  column_name :: string
  column_type :: string
  column_description :: "string option"

text \<open>
  \<^verbatim>\<open>LEFT JOIN pg_description d ON a.attrelid = d.objoid AND a.attnum = d.objsubid\<close>:
  every matching description, or one row of nulls when there is none.
\<close>

definition left_join_description :: "database \<Rightarrow> pg_attribute_row \<Rightarrow> string option list" where
  "left_join_description db a =
     (let ds = filter (\<lambda>d. attrelid a = objoid d \<and> attnum a = objsubid d) (pg_description db)
      in if ds = [] then [None] else map (\<lambda>d. Some (description d)) ds)"

text \<open>
  \<open>get_def_stmt\<close>, executed with the parameter tuple \<^verbatim>\<open>(table_name,)\<close>. The text of the
  statement has no placeholder, and psycopg2 leaves the parameters of such a statement
  unused. The rows are sorted by schema, table name and attribute number; the
  \<^verbatim>\<open>name\<close> columns of the catalog compare byte by byte.
\<close>

definition get_def_stmt :: "string \<Rightarrow> database \<Rightarrow> error + def_row list" where
  "get_def_stmt table_name_param db =
     Inr (map snd (sort_key fst
       [((ft_foreign_table_schema ft, ft_foreign_table_name ft, attnum a),
         \<lparr>schema_name = ft_foreign_table_schema ft,
          table_name = ft_foreign_table_name ft,
          column_name = attname a,
          column_type = format_type db (atttypid a) (atttypmod a),
          column_description = d\<rparr>).
        ft \<leftarrow> foreign_tables db,
        pft \<leftarrow> pg_foreign_table db,
        ft_foreign_table_name ft = regclass_text db (ftrelid pft),
        a \<leftarrow> pg_attribute db,
        attrelid a = ftrelid pft,
        d \<leftarrow> left_join_description db a,
        ft_foreign_table_schema ft = ''akeyless'' \<and> attnum a > 0]))"

definition get_all_tables_stmt :: "database \<Rightarrow> error + name_row list" where
  "get_all_tables_stmt db =
     Inr [\<lparr>row0 = ft_foreign_table_name ft\<rparr>.
          ft \<leftarrow> foreign_tables db,
          ft_foreign_table_schema ft = ''akeyless'']"





section \<open>PostgresManager: introspection\<close>

text \<open>
  The text built from the fetched rows (the last four statements of
  \<open>get_table_definition\<close>): the header, one line per row, the trailing commas and
  newlines stripped, the closing line.
\<close>

definition create_table_stmt :: "string \<Rightarrow> def_row list \<Rightarrow> string" where
  "create_table_stmt table_name_arg rows =
     rstrip
       (foldl (\<lambda>stmt row. stmt @ column_name row @ '' '' @ column_type row @ '','' @ newline)
          (''CREATE TABLE '' @ table_name_arg @ '' ('' @ newline) rows)
       ('','' @ newline)
     @ newline @ '');''"

definition get_table_definition :: "manager \<Rightarrow> string \<Rightarrow> (error + string) \<times> manager" where
  "get_table_definition self table_name_arg =
     (case cursor_execute self (select (get_def_stmt table_name_arg)) of
        (Inl e, self1) \<Rightarrow> (Inl e, self1)
      | (Inr rows, self1) \<Rightarrow> (Inr (create_table_stmt table_name_arg rows), self1))"

definition get_all_table_names :: "manager \<Rightarrow> (error + string list) \<times> manager" where
  "get_all_table_names self =
     (case cursor_execute self (select get_all_tables_stmt) of
        (Inl e, self1) \<Rightarrow> (Inl e, self1)
      | (Inr rows, self1) \<Rightarrow> (Inr (map row0 rows), self1))"

text \<open>The loop of \<open>get_table_definitions_for_prompt\<close>; an exception leaves it at once.\<close>

fun definitions_loop ::
  "manager \<Rightarrow> string list \<Rightarrow> string list \<Rightarrow> (error + string list) \<times> manager" where
  "definitions_loop self [] definitions = (Inr definitions, self)"
| "definitions_loop self (t # ts) definitions =
     (case get_table_definition self t of
        (Inl e, self1) \<Rightarrow> (Inl e, self1)
      | (Inr d, self1) \<Rightarrow> definitions_loop self1 ts (definitions @ [d]))"

definition get_table_definitions_for_prompt :: "manager \<Rightarrow> (error + string) \<times> manager" where
  "get_table_definitions_for_prompt self =
     (case get_all_table_names self of
        (Inl e, self1) \<Rightarrow> (Inl e, self1)
      | (Inr table_names, self1) \<Rightarrow>
          (case definitions_loop self1 table_names [] of
             (Inl e, self2) \<Rightarrow> (Inl e, self2)
           | (Inr definitions, self2) \<Rightarrow> (Inr (join (newline @ newline) definitions), self2)))"

text \<open>The loop of \<open>get_table_definition_map_for_embeddings\<close>.\<close>

fun definition_map_loop ::
  "manager \<Rightarrow> string list \<Rightarrow> (string \<times> string) list
     \<Rightarrow> (error + (string \<times> string) list) \<times> manager" where
  "definition_map_loop self [] definitions = (Inr definitions, self)"
| "definition_map_loop self (t # ts) definitions =
     (case get_table_definition self t of
        (Inl e, self1) \<Rightarrow> (Inl e, self1)
      | (Inr d, self1) \<Rightarrow> definition_map_loop self1 ts (dict_set definitions t d))"

definition get_table_definition_map_for_embeddings ::
  "manager \<Rightarrow> (error + (string \<times> string) list) \<times> manager" where
  "get_table_definition_map_for_embeddings self =
     (case get_all_table_names self of
        (Inl e, self1) \<Rightarrow> (Inl e, self1)
      | (Inr table_names, self1) \<Rightarrow> definition_map_loop self1 table_names [])"

section \<open>PostgresManager: related tables\<close>





section \<open>JSON text\<close>










section \<open>PostgresManager: running a statement\<close>





section \<open>Sequences of calls\<close>

text \<open>
  A manager that can run a statement: connection and cursor present and open, no aborted
  transaction, the connection looking at server state \<open>db\<close>.
\<close>

definition ready :: "manager \<Rightarrow> database \<Rightarrow> bool" where
  "ready self db =
     (case conn self of
        None \<Rightarrow> False
      | Some c \<Rightarrow>
          (case cur self of
             None \<Rightarrow> False
           | Some k \<Rightarrow>
               \<not> conn_closed c \<and> \<not> cur_closed k \<and> \<not> tx_aborted c \<and> server c = db))"






section \<open>A small server for concrete runs\<close>

definition demo_db :: database where
  "demo_db =
     \<lparr>foreign_tables =
        [\<lparr>ft_foreign_table_schema = ''akeyless'', ft_foreign_table_name = ''users''\<rparr>,
         \<lparr>ft_foreign_table_schema = ''public'', ft_foreign_table_name = ''misc''\<rparr>,
         \<lparr>ft_foreign_table_schema = ''akeyless'', ft_foreign_table_name = ''jobs''\<rparr>],
      pg_foreign_table = [\<lparr>ftrelid = 1\<rparr>, \<lparr>ftrelid = 2\<rparr>, \<lparr>ftrelid = 3\<rparr>],
      pg_attribute =
        [\<lparr>attrelid = 1, attname = ''id'', attnum = 1, atttypid = 23, atttypmod = - 1\<rparr>,
         \<lparr>attrelid = 1, attname = ''ctid'', attnum = - 1, atttypid = 27, atttypmod = - 1\<rparr>,
         \<lparr>attrelid = 2, attname = ''owner'', attnum = 2, atttypid = 23, atttypmod = - 1\<rparr>,
         \<lparr>attrelid = 2, attname = ''title'', attnum = 1, atttypid = 25, atttypmod = - 1\<rparr>,
         \<lparr>attrelid = 3, attname = ''note'', attnum = 1, atttypid = 25, atttypmod = - 1\<rparr>],
      pg_description = [\<lparr>objoid = 2, objsubid = 1, description = ''job title''\<rparr>],
      foreign_table_constraints =
        [\<lparr>ftc_foreign_table_schema = ''akeyless'', ftc_foreign_table_name = ''jobs'',
          ftc_unique_constraint_schema = ''akeyless'', ftc_unique_constraint_name = ''jobs_owner_fkey'',
          ftc_referenced_table_schema = ''akeyless'', ftc_referenced_table_name = ''users'',
          ftc_constraint_type = ''FOREIGN KEY''\<rparr>],
      table_constraints =
        [\<lparr>tc_constraint_schema = ''akeyless'', tc_constraint_name = ''jobs_owner_fkey'',
          tc_table_name = ''jobs'', tc_constraint_type = ''FOREIGN KEY''\<rparr>],
      constraint_column_usage = [\<lparr>ccu_constraint_name = ''jobs_owner_fkey''\<rparr>],
      regclass_text = (\<lambda>oid. if oid = 1 then ''users'' else if oid = 2 then ''jobs'' else ''misc''),
      format_type = (\<lambda>typid typmod. if typid = 23 then ''integer'' else ''text'')\<rparr>"

definition demo_driver :: driver where
  "demo_driver =
     \<lparr>reach = (\<lambda>url. if url = ''postgresql://demo'' then Inr demo_db else Inl OperationalError),
      run_statement =
        (\<lambda>sql db.
           if sql = ''SELECT 1 AS one, now() AS at, 1.5 AS half'' then
             (Inr (Some ([''one'', ''at'', ''half''],
                [[PInt 1, PObj (Datetime ''2024-01-02T03:04:05''), PObj (Other ''1.5'')]])), db)
           else (Inl DatabaseError, db))\<rparr>"

text \<open>A connected manager looking at a given server state.\<close>

definition manager_on :: "database \<Rightarrow> manager" where
  "manager_on db =
     \<lparr>conn = Some \<lparr>conn_closed = False, tx_aborted = False, server = db\<rparr>,
      cur = Some \<lparr>cur_closed = False\<rparr>\<rparr>"

text \<open>The same server with no foreign table at all.\<close>

definition bare_db :: database where
  "bare_db = demo_db\<lparr>foreign_tables := []\<rparr>"

definition demo_manager :: manager where
  "demo_manager = snd (connect_with_url demo_driver init ''postgresql://demo'')"

section \<open>Life-cycle properties\<close>

lemma close_cur_ok: "fst (close_cur self) = Inr ()"
  by (simp add: close_cur_def cursor_close_def split: option.splits)

lemma close_conn_ok: "fst (close_conn self) = Inr ()"
  by (simp add: close_conn_def connection_close_def split: option.splits)

lemma close_state:
  "snd (close self) =
     \<lparr>conn = map_option (\<lambda>c. c\<lparr>conn_closed := True\<rparr>) (conn self),
      cur = map_option (\<lambda>k. k\<lparr>cur_closed := True\<rparr>) (cur self)\<rparr>"
  by (cases "cur self"; cases "conn self")
     (simp_all add: close_def close_cur_def close_conn_def cursor_close_def connection_close_def)

lemma close_ok: "fst (close self) = Inr ()"
  by (cases "cur self"; cases "conn self")
     (simp_all add: close_def close_cur_def close_conn_def cursor_close_def connection_close_def)


text \<open>
  C7. \<open>close\<close> raises no error whatever the manager holds, so a missing cursor or
  connection is not an error; on a manager that was never connected it changes nothing;
  and a second \<open>close\<close> right after a first raises no error and changes nothing more.
\<close>

theorem close_never_raises_idempotent:
  "fst (close self) = Inr ()
   \<and> close init = (Inr (), init)
   \<and> close (snd (close self)) = (Inr (), snd (close self))"
proof -
  have a: "fst (close self) = Inr ()" by (rule close_ok)
  have b: "close init = (Inr (), init)"
    by (simp add: close_def close_cur_def close_conn_def init_def)
  have c: "snd (close (snd (close self))) = snd (close self)"
    by (simp add: close_state option.map_comp comp_def)
  have "fst (close (snd (close self))) = Inr ()" by (rule close_ok)
  with c have "close (snd (close self)) = (Inr (), snd (close self))"
    by (metis prod.collapse)
  with a b show ?thesis by simp
qed


section \<open>Which handles a call leaves present\<close>





















section \<open>Introspection\<close>

lemma cursor_execute_select:
  assumes "ready self db"
  shows "cursor_execute self (select q) =
           (case q db of
              Inl e \<Rightarrow> (Inl e, self\<lparr>conn := map_option (\<lambda>c. c\<lparr>tx_aborted := True\<rparr>) (conn self)\<rparr>)
            | Inr r \<Rightarrow> (Inr r, self))"
  using assms
  by (auto simp: ready_def cursor_execute_def select_def split: option.splits sum.splits)

lemma cursor_execute_select_ok:
  "ready self db \<Longrightarrow> q db = Inr r \<Longrightarrow> cursor_execute self (select q) = (Inr r, self)"
  by (simp add: cursor_execute_select)

lemma comprehension_filter:
  "concat (map (\<lambda>x. if P x then [f x] else []) xs) = map f (filter P xs)"
  by (induction xs) simp_all

text \<open>
  C3. On a manager that can run a statement, \<open>get_all_table_names\<close> returns the names of
  the rows of \<^verbatim>\<open>information_schema.foreign_tables\<close> whose schema is \<^verbatim>\<open>akeyless\<close>, those
  and no others, in the order of the rows; the result is empty exactly when there is no
  such row. The manager is left as it was.
\<close>

theorem get_all_table_names_exact:
  assumes "ready self db"
  shows "get_all_table_names self =
           (Inr (map ft_foreign_table_name
                  (filter (\<lambda>ft. ft_foreign_table_schema ft = ''akeyless'') (foreign_tables db))),
            self)
         \<and> ((get_all_table_names self = (Inr [], self))
              = (\<forall>ft \<in> set (foreign_tables db). ft_foreign_table_schema ft \<noteq> ''akeyless''))"
proof -
  have q: "get_all_tables_stmt db =
             Inr (map (\<lambda>ft. \<lparr>row0 = ft_foreign_table_name ft\<rparr>)
                   (filter (\<lambda>ft. ft_foreign_table_schema ft = ''akeyless'') (foreign_tables db)))"
    by (simp add: get_all_tables_stmt_def comprehension_filter)
  have r: "get_all_table_names self =
           (Inr (map ft_foreign_table_name
                  (filter (\<lambda>ft. ft_foreign_table_schema ft = ''akeyless'') (foreign_tables db))),
            self)"
    by (simp add: get_all_table_names_def
        cursor_execute_select_ok[of self db get_all_tables_stmt, OF assms q] comp_def)
  show ?thesis
    by (simp add: r filter_empty_conv)
qed

theorem get_all_table_names_exact_witness:
  "ready demo_manager demo_db
   \<and> get_all_table_names demo_manager = (Inr [''users'', ''jobs''], demo_manager)"
proof -
  have h: "ready demo_manager demo_db"
    by (simp add: ready_def demo_manager_def connect_with_url_def psycopg2_connect_def
        connection_cursor_def demo_driver_def)
  from get_all_table_names_exact[OF h] h show ?thesis
    by (simp add: demo_db_def)
qed

section \<open>The text of a table definition\<close>

lemma rstrip_keep_char:
  "c \<notin> set chars \<Longrightarrow> rstrip (xs @ c # ys) chars = xs @ c # rstrip ys chars"
proof -
  assume c: "c \<notin> set chars"
  let ?P = "\<lambda>x. x \<in> set chars"
  have "dropWhile ?P (rev ys @ c # rev xs) = dropWhile ?P (rev ys) @ c # rev xs"
  proof (cases "\<forall>x \<in> set (rev ys). ?P x")
    case True
    then have "dropWhile ?P (rev ys) = []" by simp
    with True c show ?thesis by (simp add: dropWhile_append)
  next
    case False
    then show ?thesis by (auto simp: dropWhile_append)
  qed
  then show ?thesis by (simp add: rstrip_def)
qed

lemma rstrip_all: "set ys \<subseteq> set chars \<Longrightarrow> rstrip (xs @ ys) chars = rstrip xs chars"
  by (auto simp: rstrip_def dropWhile_append)

lemma rstrip_id: "xs = [] \<or> last xs \<notin> set chars \<Longrightarrow> rstrip xs chars = xs"
  by (cases xs rule: rev_cases) (auto simp: rstrip_def)

lemma rstrip_last: "rstrip xs chars \<noteq> [] \<Longrightarrow> last (rstrip xs chars) \<notin> set chars"
proof -
  assume ne: "rstrip xs chars \<noteq> []"
  then have "dropWhile (\<lambda>x. x \<in> set chars) (rev xs) \<noteq> []" by (simp add: rstrip_def)
  then have "\<not> hd (dropWhile (\<lambda>x. x \<in> set chars) (rev xs)) \<in> set chars"
    by (rule hd_dropWhile)
  with ne show ?thesis by (simp add: rstrip_def last_rev)
qed

lemma foldl_lines:
  "foldl (\<lambda>stmt row. stmt @ f row) h rows = h @ concat (map f rows)"
  by (induction rows arbitrary: h) simp_all

lemma create_table_stmt_concat:
  "create_table_stmt t rows =
     rstrip (''CREATE TABLE '' @ t @ '' ('' @ newline
             @ concat (map (\<lambda>row. column_name row @ '' '' @ column_type row @ '','' @ newline) rows))
       ('','' @ newline)
     @ newline @ '');''"
  using foldl_lines[of "\<lambda>row. column_name row @ '' '' @ column_type row @ '','' @ newline"
      "''CREATE TABLE '' @ t @ '' ('' @ newline" rows]
  by (simp add: create_table_stmt_def)

lemma get_table_definition_ready:
  "ready self db \<Longrightarrow> get_def_stmt t db = Inr rows \<Longrightarrow>
     get_table_definition self t = (Inr (create_table_stmt t rows), self)"
  by (simp add: get_table_definition_def cursor_execute_select_ok[of self db "get_def_stmt t"])

lemma ready_manager_on: "ready (manager_on db) db"
  by (simp add: ready_def manager_on_def)

lemma create_table_stmt_header:
  "\<exists>rest. create_table_stmt t rows = ''CREATE TABLE '' @ t @ '' ('' @ rest"
proof -
  let ?line = "\<lambda>row. column_name row @ '' '' @ column_type row @ '','' @ newline"
  let ?chars = "'','' @ newline"
  have "rstrip ((''CREATE TABLE '' @ t @ '' '') @ CHR ''('' # (newline @ concat (map ?line rows))) ?chars
          = (''CREATE TABLE '' @ t @ '' '') @ CHR ''('' # rstrip (newline @ concat (map ?line rows)) ?chars"
    by (rule rstrip_keep_char) (simp add: newline_def)
  then show ?thesis by (simp add: create_table_stmt_concat)
qed

lemma create_table_stmt_Nil:
  "create_table_stmt t [] = ''CREATE TABLE '' @ t @ '' ('' @ newline @ '');''"
proof -
  have "rstrip ((''CREATE TABLE '' @ t @ '' '') @ CHR ''('' # newline) ('','' @ newline)
          = (''CREATE TABLE '' @ t @ '' '') @ CHR ''('' # rstrip newline ('','' @ newline)"
    by (rule rstrip_keep_char) (simp add: newline_def)
  moreover have "rstrip newline ('','' @ newline) = []"
    by (simp add: rstrip_def newline_def)
  ultimately show ?thesis
    by (simp add: create_table_stmt_concat)
qed

lemma create_table_stmt_rows:
  assumes ne: "rows \<noteq> []"
  shows "create_table_stmt t rows =
       ''CREATE TABLE '' @ t @ '' ('' @ newline
       @ concat (map (\<lambda>row. column_name row @ '' '' @ column_type row @ '','' @ newline)
                   (butlast rows))
       @ column_name (last rows) @ '' ''
       @ rstrip (column_type (last rows)) ('','' @ newline)
       @ newline @ '');''"
proof -
  let ?line = "\<lambda>row. column_name row @ '' '' @ column_type row @ '','' @ newline"
  let ?chars = "'','' @ newline"
  let ?pre = "''CREATE TABLE '' @ t @ '' ('' @ newline @ concat (map ?line (butlast rows))
              @ column_name (last rows)"
  from ne have split: "rows = butlast rows @ [last rows]" by simp
  have "concat (map ?line rows) = concat (map ?line (butlast rows)) @ ?line (last rows)"
    by (subst split) (simp del: append_butlast_last_id)
  then have whole: "''CREATE TABLE '' @ t @ '' ('' @ newline @ concat (map ?line rows)
                 = ?pre @ CHR '' '' # (column_type (last rows) @ ?chars)"
    by simp
  have "rstrip (''CREATE TABLE '' @ t @ '' ('' @ newline @ concat (map ?line rows)) ?chars
          = rstrip (?pre @ CHR '' '' # (column_type (last rows) @ ?chars)) ?chars"
    by (simp only: whole)
  also have "\<dots> = ?pre @ CHR '' '' # rstrip (column_type (last rows) @ ?chars) ?chars"
    by (rule rstrip_keep_char) (simp add: newline_def)
  also have "rstrip (column_type (last rows) @ ?chars) ?chars = rstrip (column_type (last rows)) ?chars"
    by (rule rstrip_all) simp
  finally have body: "rstrip (''CREATE TABLE '' @ t @ '' ('' @ newline @ concat (map ?line rows)) ?chars
                = ?pre @ CHR '' '' # rstrip (column_type (last rows)) ?chars" .
  show ?thesis
    unfolding create_table_stmt_concat body by simp
qed

lemma create_table_stmt_closing:
  "\<exists>body. create_table_stmt t rows = body @ newline @ '');''
          \<and> body \<noteq> [] \<and> last body \<noteq> CHR '','' \<and> last body \<noteq> CHR 0x0A"
proof -
  let ?line = "\<lambda>row. column_name row @ '' '' @ column_type row @ '','' @ newline"
  let ?chars = "'','' @ newline"
  let ?body = "rstrip (''CREATE TABLE '' @ t @ '' ('' @ newline @ concat (map ?line rows)) ?chars"
  obtain rest where "create_table_stmt t rows = ''CREATE TABLE '' @ t @ '' ('' @ rest"
    using create_table_stmt_header by blast
  then have "?body @ newline @ '');'' = ''CREATE TABLE '' @ t @ '' ('' @ rest"
    by (simp add: create_table_stmt_concat)
  then have ne: "?body \<noteq> []" by (auto simp: newline_def)
  from rstrip_last[OF ne] have "last ?body \<notin> set ?chars" .
  then have "last ?body \<noteq> CHR '',''" "last ?body \<noteq> CHR 0x0A"
    by (auto simp: newline_def)
  with ne show ?thesis
    by (intro exI[of _ ?body]) (simp add: create_table_stmt_concat)
qed

text \<open>
  C10. With no introspected row, the text is the header line followed by the closing
  line, and \<open>get_table_definition\<close> returns it without an error.
\<close>

theorem get_table_definition_no_rows:
  "create_table_stmt t [] = ''CREATE TABLE '' @ t @ '' ('' @ newline @ '');''
   \<and> (ready self db \<and> get_def_stmt t db = Inr [] \<longrightarrow>
        get_table_definition self t = (Inr (''CREATE TABLE '' @ t @ '' ('' @ newline @ '');''), self))"
  using create_table_stmt_Nil[of t] get_table_definition_ready[of self db t "[]"] by simp

theorem get_table_definition_no_rows_witness:
  "ready (manager_on bare_db) bare_db \<and> get_def_stmt ''users'' bare_db = Inr []
   \<and> get_table_definition (manager_on bare_db) ''users''
       = (Inr (''CREATE TABLE users ('' @ newline @ '');''), manager_on bare_db)"
proof -
  have q: "get_def_stmt ''users'' bare_db = Inr []"
    by (simp add: get_def_stmt_def bare_db_def demo_db_def)
  from get_table_definition_no_rows[of "''users''" "manager_on bare_db" bare_db] q
    ready_manager_on[of bare_db]
  show ?thesis by simp
qed

text \<open>
  C4. With at least one introspected row the text is the header line, then for every row
  but the last the line \<^verbatim>\<open>name type,\<close>, then the last row as \<^verbatim>\<open>name type\<close> with the
  trailing commas and newlines of the type text stripped (none, for a type text that does
  not end in one), then a newline and \<^verbatim>\<open>);\<close>. What stands before that final newline is
  never a comma. \<open>get_table_definition\<close> returns this text for the rows of its statement.
\<close>

theorem create_table_stmt_shape:
  "rows \<noteq> [] \<longrightarrow>
     create_table_stmt t rows =
       ''CREATE TABLE '' @ t @ '' ('' @ newline
       @ concat (map (\<lambda>row. column_name row @ '' '' @ column_type row @ '','' @ newline)
                   (butlast rows))
       @ column_name (last rows) @ '' ''
       @ rstrip (column_type (last rows)) ('','' @ newline)
       @ newline @ '');''
     \<and> (column_type (last rows) = [] \<or> last (column_type (last rows)) \<notin> set ('','' @ newline)
          \<longrightarrow> rstrip (column_type (last rows)) ('','' @ newline) = column_type (last rows))
     \<and> (\<exists>body. create_table_stmt t rows = body @ newline @ '');''
                \<and> body \<noteq> [] \<and> last body \<noteq> CHR '','' \<and> last body \<noteq> CHR 0x0A)
     \<and> (ready self db \<and> get_def_stmt t db = Inr rows \<longrightarrow>
          get_table_definition self t = (Inr (create_table_stmt t rows), self))"
  using create_table_stmt_rows[of rows t]
    rstrip_id[of "column_type (last rows)" "'','' @ newline"]
    create_table_stmt_closing[of t rows]
    get_table_definition_ready[of self db t rows]
  by blast

lemma demo_rows:
  "get_def_stmt t demo_db =
     Inr [\<lparr>schema_name = ''akeyless'', table_name = ''jobs'', column_name = ''title'',
           column_type = ''text'', column_description = Some ''job title''\<rparr>,
          \<lparr>schema_name = ''akeyless'', table_name = ''jobs'', column_name = ''owner'',
           column_type = ''integer'', column_description = None\<rparr>,
          \<lparr>schema_name = ''akeyless'', table_name = ''users'', column_name = ''id'',
           column_type = ''integer'', column_description = None\<rparr>]"
  by (simp add: get_def_stmt_def demo_db_def left_join_description_def)

theorem create_table_stmt_shape_witness:
  "ready (manager_on demo_db) demo_db
   \<and> get_def_stmt ''users'' demo_db =
       Inr [\<lparr>schema_name = ''akeyless'', table_name = ''jobs'', column_name = ''title'',
             column_type = ''text'', column_description = Some ''job title''\<rparr>,
            \<lparr>schema_name = ''akeyless'', table_name = ''jobs'', column_name = ''owner'',
             column_type = ''integer'', column_description = None\<rparr>,
            \<lparr>schema_name = ''akeyless'', table_name = ''users'', column_name = ''id'',
             column_type = ''integer'', column_description = None\<rparr>]
   \<and> get_table_definition (manager_on demo_db) ''users'' =
       (Inr (''CREATE TABLE users ('' @ newline @ ''title text,'' @ newline
             @ ''owner integer,'' @ newline @ ''id integer'' @ newline @ '');''),
        manager_on demo_db)"
  using create_table_stmt_shape[of
      "[\<lparr>schema_name = ''akeyless'', table_name = ''jobs'', column_name = ''title'',
             column_type = ''text'', column_description = Some ''job title''\<rparr>,
            \<lparr>schema_name = ''akeyless'', table_name = ''jobs'', column_name = ''owner'',
             column_type = ''integer'', column_description = None\<rparr>,
            \<lparr>schema_name = ''akeyless'', table_name = ''users'', column_name = ''id'',
             column_type = ''integer'', column_description = None\<rparr>]"
      "''users''" "manager_on demo_db" demo_db]
    demo_rows[of "''users''"] ready_manager_on[of demo_db]
  by (simp add: rstrip_def newline_def)

lemma left_join_description_nonempty: "left_join_description db a \<noteq> []"
  by (simp add: left_join_description_def Let_def)

lemma get_def_stmt_columns:
  assumes "get_def_stmt t db = Inr rows"
    and "ft \<in> set (foreign_tables db)" and "pft \<in> set (pg_foreign_table db)"
    and "a \<in> set (pg_attribute db)"
    and "ft_foreign_table_schema ft = ''akeyless''"
    and "ft_foreign_table_name ft = regclass_text db (ftrelid pft)"
    and "attrelid a = ftrelid pft" and "0 < attnum a"
  shows "\<exists>row \<in> set rows. table_name row = ft_foreign_table_name ft
           \<and> column_name row = attname a
           \<and> column_type row = format_type db (atttypid a) (atttypmod a)"
proof -
  obtain d where d: "d \<in> set (left_join_description db a)"
    using left_join_description_nonempty[of db a] by (cases "left_join_description db a") auto
  let ?row = "\<lparr>schema_name = ft_foreign_table_schema ft,
          table_name = ft_foreign_table_name ft,
          column_name = attname a,
          column_type = format_type db (atttypid a) (atttypmod a),
          column_description = d\<rparr>"
  from assms d have "?row \<in> set rows"
    by (force simp: get_def_stmt_def)
  then show ?thesis by (intro bexI[of _ ?row]) simp_all
qed

lemma get_def_stmt_schema:
  "get_def_stmt t db = Inr rows \<Longrightarrow> row \<in> set rows \<Longrightarrow> schema_name row = ''akeyless''"
  by (auto simp: get_def_stmt_def split: if_splits)

text \<open>
  C1. The rows \<open>get_table_definition\<close> builds its text from do not depend on the table
  name it is given: they hold every column (attribute number above 0) of every foreign
  table of schema \<^verbatim>\<open>akeyless\<close>, whatever its name, and nothing from another schema. The
  text still starts with \<^verbatim>\<open>CREATE TABLE\<close> and the requested name.
\<close>

theorem get_table_definition_not_filtered:
  "get_def_stmt t db = get_def_stmt t' db
   \<and> (\<exists>rows. get_def_stmt t db = Inr rows)
   \<and> (get_def_stmt t db = Inr rows \<longrightarrow>
        (\<forall>ft \<in> set (foreign_tables db). \<forall>pft \<in> set (pg_foreign_table db).
           \<forall>a \<in> set (pg_attribute db).
             ft_foreign_table_schema ft = ''akeyless''
             \<and> ft_foreign_table_name ft = regclass_text db (ftrelid pft)
             \<and> attrelid a = ftrelid pft \<and> 0 < attnum a
             \<longrightarrow> (\<exists>row \<in> set rows. table_name row = ft_foreign_table_name ft
                    \<and> column_name row = attname a
                    \<and> column_type row = format_type db (atttypid a) (atttypmod a)))
        \<and> (\<forall>row \<in> set rows. schema_name row = ''akeyless'')
        \<and> (ready self db \<longrightarrow>
             get_table_definition self t = (Inr (create_table_stmt t rows), self))
        \<and> (\<exists>rest. create_table_stmt t rows = ''CREATE TABLE '' @ t @ '' ('' @ rest))"
proof -
  have a: "get_def_stmt t db = get_def_stmt t' db"
    by (simp add: get_def_stmt_def)
  have b: "\<exists>rows. get_def_stmt t db = Inr rows"
    by (simp add: get_def_stmt_def)
  have c: "get_def_stmt t db = Inr rows \<longrightarrow>
        (\<forall>ft \<in> set (foreign_tables db). \<forall>pft \<in> set (pg_foreign_table db).
           \<forall>a \<in> set (pg_attribute db).
             ft_foreign_table_schema ft = ''akeyless''
             \<and> ft_foreign_table_name ft = regclass_text db (ftrelid pft)
             \<and> attrelid a = ftrelid pft \<and> 0 < attnum a
             \<longrightarrow> (\<exists>row \<in> set rows. table_name row = ft_foreign_table_name ft
                    \<and> column_name row = attname a
                    \<and> column_type row = format_type db (atttypid a) (atttypmod a)))"
    using get_def_stmt_columns[of t db rows] by blast
  have d: "get_def_stmt t db = Inr rows \<longrightarrow> (\<forall>row \<in> set rows. schema_name row = ''akeyless'')"
    using get_def_stmt_schema[of t db rows] by blast
  have e: "get_def_stmt t db = Inr rows \<longrightarrow> ready self db \<longrightarrow>
             get_table_definition self t = (Inr (create_table_stmt t rows), self)"
    using get_table_definition_ready[of self db t rows] by blast
  from a b c d e create_table_stmt_header[of t rows] show ?thesis by blast
qed

theorem get_table_definition_not_filtered_witness:
  "ready (manager_on demo_db) demo_db
   \<and> get_def_stmt ''users'' demo_db = get_def_stmt ''jobs'' demo_db
   \<and> get_table_definition (manager_on demo_db) ''users'' =
       (Inr (create_table_stmt ''users''
          [\<lparr>schema_name = ''akeyless'', table_name = ''jobs'', column_name = ''title'',
             column_type = ''text'', column_description = Some ''job title''\<rparr>,
            \<lparr>schema_name = ''akeyless'', table_name = ''jobs'', column_name = ''owner'',
             column_type = ''integer'', column_description = None\<rparr>,
            \<lparr>schema_name = ''akeyless'', table_name = ''users'', column_name = ''id'',
             column_type = ''integer'', column_description = None\<rparr>]),
        manager_on demo_db)
   \<and> create_table_stmt ''users''
          [\<lparr>schema_name = ''akeyless'', table_name = ''jobs'', column_name = ''title'',
             column_type = ''text'', column_description = Some ''job title''\<rparr>,
            \<lparr>schema_name = ''akeyless'', table_name = ''jobs'', column_name = ''owner'',
             column_type = ''integer'', column_description = None\<rparr>,
            \<lparr>schema_name = ''akeyless'', table_name = ''users'', column_name = ''id'',
             column_type = ''integer'', column_description = None\<rparr>]
       = ''CREATE TABLE users ('' @ newline @ ''title text,'' @ newline
             @ ''owner integer,'' @ newline @ ''id integer'' @ newline @ '');''"
  using get_table_definition_not_filtered[of "''users''" demo_db "''jobs''"
      "[\<lparr>schema_name = ''akeyless'', table_name = ''jobs'', column_name = ''title'',
             column_type = ''text'', column_description = Some ''job title''\<rparr>,
            \<lparr>schema_name = ''akeyless'', table_name = ''jobs'', column_name = ''owner'',
             column_type = ''integer'', column_description = None\<rparr>,
            \<lparr>schema_name = ''akeyless'', table_name = ''users'', column_name = ''id'',
             column_type = ''integer'', column_description = None\<rparr>]"
      "manager_on demo_db"]
    demo_rows[of "''users''"] ready_manager_on[of demo_db]
  by (simp add: create_table_stmt_def rstrip_def newline_def)

section \<open>Definitions of all tables\<close>

lemma get_all_table_names_ready:
  assumes "ready self db"
  shows "get_all_table_names self =
           (Inr (map ft_foreign_table_name
                  (filter (\<lambda>ft. ft_foreign_table_schema ft = ''akeyless'') (foreign_tables db))),
            self)"
proof -
  have q: "get_all_tables_stmt db =
             Inr (map (\<lambda>ft. \<lparr>row0 = ft_foreign_table_name ft\<rparr>)
                   (filter (\<lambda>ft. ft_foreign_table_schema ft = ''akeyless'') (foreign_tables db)))"
    by (simp add: get_all_tables_stmt_def comprehension_filter)
  show ?thesis
    by (simp add: get_all_table_names_def
        cursor_execute_select_ok[of self db get_all_tables_stmt, OF assms q] comp_def)
qed

lemma get_def_stmt_total: "get_def_stmt t db = Inr (projr (get_def_stmt t db))"
  by (simp add: get_def_stmt_def)

lemma get_table_definition_text:
  "ready self db \<Longrightarrow>
     get_table_definition self t =
       (Inr (create_table_stmt t (projr (get_def_stmt t db))), self)"
  using get_table_definition_ready[OF _ get_def_stmt_total] .

lemma definitions_loop_ready:
  "ready self db \<Longrightarrow>
     definitions_loop self ts acc =
       (Inr (acc @ map (\<lambda>t. create_table_stmt t (projr (get_def_stmt t db))) ts), self)"
  by (induction ts arbitrary: acc) (simp_all add: get_table_definition_text)

lemma definition_map_loop_ready:
  "ready self db \<Longrightarrow>
     definition_map_loop self ts acc =
       (Inr (foldl (\<lambda>d t. dict_set d t (create_table_stmt t (projr (get_def_stmt t db)))) acc ts),
        self)"
  by (induction ts arbitrary: acc) (simp_all add: get_table_definition_text)

lemma dict_set_keys:
  "fst ` set (dict_set d k v) = insert k (fst ` set d)"
proof (induction d)
  case Nil
  show ?case by simp
next
  case (Cons p d)
  obtain k' v' where p: "p = (k', v')" by (cases p)
  show ?case
  proof (cases "k' = k")
    case True
    with p show ?thesis by simp
  next
    case False
    with p Cons.IH show ?thesis by (simp add: insert_commute)
  qed
qed

lemma dict_set_distinct:
  "distinct (map fst d) \<Longrightarrow> distinct (map fst (dict_set d k v))"
proof (induction d)
  case Nil
  show ?case by simp
next
  case (Cons p d)
  obtain k' v' where p: "p = (k', v')" by (cases p)
  show ?case
  proof (cases "k' = k")
    case True
    with p Cons.prems show ?thesis by simp
  next
    case False
    from Cons.prems p have "k' \<notin> fst ` set d" and "distinct (map fst d)" by simp_all
    with False p Cons.IH dict_set_keys[of d k v] show ?thesis by simp
  qed
qed

lemma dict_set_entries:
  "e \<in> set (dict_set d k v) \<Longrightarrow> e = (k, v) \<or> e \<in> set d"
  by (induction d) (auto split: if_splits)

lemma foldl_dict_set_keys:
  "fst ` set (foldl (\<lambda>d t. dict_set d t (f t)) acc ts) = fst ` set acc \<union> set ts"
  by (induction ts arbitrary: acc) (simp_all add: dict_set_keys)

lemma foldl_dict_set_distinct:
  "distinct (map fst acc) \<Longrightarrow> distinct (map fst (foldl (\<lambda>d t. dict_set d t (f t)) acc ts))"
  by (induction ts arbitrary: acc) (simp_all add: dict_set_distinct)

lemma foldl_dict_set_entries:
  "e \<in> set (foldl (\<lambda>d t. dict_set d t (f t)) acc ts) \<Longrightarrow>
     e \<in> set acc \<or> (\<exists>t \<in> set ts. e = (t, f t))"
proof (induction ts arbitrary: acc)
  case Nil
  then show ?case by simp
next
  case (Cons t ts)
  from Cons.IH[of "dict_set acc t (f t)"] Cons.prems
  have "e \<in> set (dict_set acc t (f t)) \<or> (\<exists>t \<in> set ts. e = (t, f t))" by simp
  with dict_set_entries[of e acc t "f t"] show ?case by auto
qed

text \<open>
  C5. On a manager that can run a statement, \<open>get_table_definitions_for_prompt\<close> returns
  the texts \<open>get_table_definition\<close> returns for the names of \<open>get_all_table_names\<close>, in
  that order, joined by two newlines; \<open>get_table_definition_map_for_embeddings\<close> returns
  a dictionary whose keys are exactly those names, each with the text
  \<open>get_table_definition\<close> returns for it.
\<close>

theorem definitions_follow_table_names:
  "ready self db \<longrightarrow>
     (\<exists>table_names definitions dmap.
        get_all_table_names self = (Inr table_names, self)
        \<and> length definitions = length table_names
        \<and> (\<forall>i < length table_names.
              get_table_definition self (table_names ! i) = (Inr (definitions ! i), self))
        \<and> get_table_definitions_for_prompt self = (Inr (join (newline @ newline) definitions), self)
        \<and> get_table_definition_map_for_embeddings self = (Inr dmap, self)
        \<and> distinct (map fst dmap) \<and> set (map fst dmap) = set table_names
        \<and> (\<forall>(t, d) \<in> set dmap. get_table_definition self t = (Inr d, self)))"
proof
  assume r: "ready self db"
  let ?names = "map ft_foreign_table_name
                  (filter (\<lambda>ft. ft_foreign_table_schema ft = ''akeyless'') (foreign_tables db))"
  let ?text = "\<lambda>t. create_table_stmt t (projr (get_def_stmt t db))"
  let ?defs = "map ?text ?names"
  let ?dmap = "foldl (\<lambda>d t. dict_set d t (?text t)) [] ?names"
  have n: "get_all_table_names self = (Inr ?names, self)"
    by (rule get_all_table_names_ready[OF r])
  have d: "\<And>t. get_table_definition self t = (Inr (?text t), self)"
    by (rule get_table_definition_text[OF r])
  have 1: "length ?defs = length ?names" by simp
  have 2: "\<forall>i < length ?names. get_table_definition self (?names ! i) = (Inr (?defs ! i), self)"
    using d by simp
  have 3: "get_table_definitions_for_prompt self = (Inr (join (newline @ newline) ?defs), self)"
    by (simp add: get_table_definitions_for_prompt_def n definitions_loop_ready[OF r])
  have 4: "get_table_definition_map_for_embeddings self = (Inr ?dmap, self)"
    by (simp add: get_table_definition_map_for_embeddings_def n definition_map_loop_ready[OF r])
  have 5: "distinct (map fst ?dmap)"
    by (rule foldl_dict_set_distinct) simp
  have 6: "set (map fst ?dmap) = set ?names"
    using foldl_dict_set_keys[of ?text "[]" ?names] by simp
  have 7: "\<forall>(t, x) \<in> set ?dmap. get_table_definition self t = (Inr x, self)"
  proof (clarify)
    fix t x assume "(t, x) \<in> set ?dmap"
    from foldl_dict_set_entries[OF this] have "x = ?text t" by auto
    with d show "get_table_definition self t = (Inr x, self)" by simp
  qed
  from n 1 2 3 4 5 6 7
  show "\<exists>table_names definitions dmap.
        get_all_table_names self = (Inr table_names, self)
        \<and> length definitions = length table_names
        \<and> (\<forall>i < length table_names.
              get_table_definition self (table_names ! i) = (Inr (definitions ! i), self))
        \<and> get_table_definitions_for_prompt self = (Inr (join (newline @ newline) definitions), self)
        \<and> get_table_definition_map_for_embeddings self = (Inr dmap, self)
        \<and> distinct (map fst dmap) \<and> set (map fst dmap) = set table_names
        \<and> (\<forall>(t, d) \<in> set dmap. get_table_definition self t = (Inr d, self))"
    by blast
qed

theorem definitions_follow_table_names_witness:
  "ready (manager_on demo_db) demo_db
   \<and> get_table_definitions_for_prompt (manager_on demo_db) =
       (Inr (''CREATE TABLE users ('' @ newline @ ''title text,'' @ newline
               @ ''owner integer,'' @ newline @ ''id integer'' @ newline @ '');''
             @ newline @ newline
             @ ''CREATE TABLE jobs ('' @ newline @ ''title text,'' @ newline
               @ ''owner integer,'' @ newline @ ''id integer'' @ newline @ '');''),
        manager_on demo_db)"
proof -
  let ?m = "manager_on demo_db"
  have r: "ready ?m demo_db" by (rule ready_manager_on)
  from definitions_follow_table_names[of ?m demo_db] r
  obtain table_names definitions where
    n: "get_all_table_names ?m = (Inr table_names, ?m)"
    and l: "length definitions = length table_names"
    and d: "\<forall>i < length table_names.
              get_table_definition ?m (table_names ! i) = (Inr (definitions ! i), ?m)"
    and p: "get_table_definitions_for_prompt ?m = (Inr (join (newline @ newline) definitions), ?m)"
    by blast
  from n get_all_table_names_ready[OF r] have names: "table_names = [''users'', ''jobs'']"
    by (simp add: demo_db_def)
  have t: "\<And>t. get_table_definition ?m t =
             (Inr (''CREATE TABLE '' @ t @ '' ('' @ newline @ ''title text,'' @ newline
               @ ''owner integer,'' @ newline @ ''id integer'' @ newline @ '');''), ?m)"
    using get_table_definition_ready[OF r demo_rows]
    by (simp add: create_table_stmt_def rstrip_def newline_def)
  from d names t[of "''users''"] t[of "''jobs''"]
  have "definitions ! 0 = ''CREATE TABLE users ('' @ newline @ ''title text,'' @ newline
               @ ''owner integer,'' @ newline @ ''id integer'' @ newline @ '');''"
    and "definitions ! 1 = ''CREATE TABLE jobs ('' @ newline @ ''title text,'' @ newline
               @ ''owner integer,'' @ newline @ ''id integer'' @ newline @ '');''"
    by auto
  with l names have "definitions =
      [''CREATE TABLE users ('' @ newline @ ''title text,'' @ newline
               @ ''owner integer,'' @ newline @ ''id integer'' @ newline @ '');'',
       ''CREATE TABLE jobs ('' @ newline @ ''title text,'' @ newline
               @ ''owner integer,'' @ newline @ ''id integer'' @ newline @ '');'']"
    by (auto simp: list_eq_iff_nth_eq less_Suc_eq)
  with p r show ?thesis by simp
qed

section \<open>Related tables\<close>

















section \<open>Serialization\<close>










end
